theory Spec2Isabelle
  imports Main
begin

section \<open>JavaScript values as the hook scripts see them\<close>

text \<open>
  The hooks read and write JSON documents. A parsed document is a value of \<open>json\<close>;
  an object keeps its keys in insertion order (an association list), as
  \<^verbatim>\<open>Object.keys\<close> and \<^verbatim>\<open>JSON.stringify\<close> observe it. A property read that finds
  nothing is JavaScript's \<^verbatim>\<open>undefined\<close>, written \<open>None\<close>; a stored value is never
  \<^verbatim>\<open>undefined\<close>. Numbers are the integers the documents hold.
\<close>

datatype json =
    JNull
  | JBool bool
  | JNum int
  | JStr string
  | JArr "json list"
  | JObj "(string \<times> json) list"

text \<open>\<^verbatim>\<open>!v\<close> is false exactly on the truthy values.\<close>

fun truthy :: "json \<Rightarrow> bool" where
  "truthy JNull = False"
| "truthy (JBool b) = b"
| "truthy (JNum n) = (n \<noteq> 0)"
| "truthy (JStr s) = (s \<noteq> [])"
| "truthy (JArr xs) = True"
| "truthy (JObj kvs) = True"



fun is_array :: "json \<Rightarrow> bool" where
  "is_array (JArr xs) = True"
| "is_array v = False"

text \<open>\<^verbatim>\<open>String(n)\<close> of a non-negative integer: its decimal digits.\<close>

function digits10 :: "nat \<Rightarrow> string" where
  "digits10 n =
     (if n < 10 then [char_of (48 + n)]
      else digits10 (n div 10) @ [char_of (48 + n mod 10)])"
  by pat_completeness auto
termination
  by (relation "measure id") auto

declare digits10.simps [simp del]

definition index_keys :: "nat \<Rightarrow> string list" where
  "index_keys n = map digits10 [0..<n]"

text \<open>
  The own enumerable properties of a value, in order: what \<^verbatim>\<open>{...v}\<close> copies and
  \<^verbatim>\<open>Object.keys(v)\<close> lists. An array and a string have their indices.
\<close>

fun own_entries :: "json \<Rightarrow> (string \<times> json) list" where
  "own_entries (JObj kvs) = kvs"
| "own_entries (JArr xs) = zip (index_keys (length xs)) xs"
| "own_entries (JStr s) = zip (index_keys (length s)) (map (\<lambda>c. JStr [c]) s)"
| "own_entries v = []"


text \<open>\<^verbatim>\<open>v[k]\<close> for a data key \<open>k\<close> of a value that is neither null nor undefined.\<close>

definition get_prop :: "json \<Rightarrow> string \<Rightarrow> json option" where
  "get_prop v k = map_of (own_entries v) k"




fun or_default :: "json option \<Rightarrow> json \<Rightarrow> json" where
  "or_default None d = d"
| "or_default (Some v) d = (if truthy v then v else d)"

section \<open>Configuration merging (gk-config-utils.cjs)\<close>















text \<open>\<^verbatim>\<open>DEFAULT_CONFIG\<close>, section by section.\<close>

definition DEFAULT_resolution :: json where
  "DEFAULT_resolution = JObj
     [(''order'', JArr [JStr ''session'', JStr ''branch'']),
      (''branchPattern'', JStr ''(?:feat|fix|chore|refactor|docs)/(?:[^/]+/)?(.+)'')]"

definition DEFAULT_plan :: json where
  "DEFAULT_plan = JObj
     [(''namingFormat'', JStr ''{date}-{issue}-{slug}''),
      (''dateFormat'', JStr ''YYMMDD-HHmm''),
      (''issuePrefix'', JNull),
      (''reportsDir'', JStr ''reports''),
      (''resolution'', DEFAULT_resolution)]"

definition DEFAULT_paths :: json where
  "DEFAULT_paths = JObj [(''docs'', JStr ''docs''), (''plans'', JStr ''plans'')]"


definition DEFAULT_trust :: json where
  "DEFAULT_trust = JObj [(''passphrase'', JNull), (''enabled'', JBool False)]"

definition DEFAULT_project :: json where
  "DEFAULT_project = JObj
     [(''type'', JStr ''auto''), (''packageManager'', JStr ''auto''), (''framework'', JStr ''auto'')]"



definition starts_with :: "string \<Rightarrow> string \<Rightarrow> bool" where
  "starts_with s p = (take (length p) s = p)"















fun join_with :: "string \<Rightarrow> string list \<Rightarrow> string" where
  "join_with s [] = []"
| "join_with s [x] = x"
| "join_with s (x # y # zs) = x @ s @ join_with s (y # zs)"





subsection \<open>What loadConfig returns\<close>






lemma truthy_defaults [simp]: "truthy DEFAULT_plan" "truthy DEFAULT_paths" "truthy DEFAULT_trust" "truthy DEFAULT_project"
  by (simp_all add: DEFAULT_plan_def DEFAULT_paths_def DEFAULT_trust_def DEFAULT_project_def)




















section \<open>Session identifiers (gk-session-manager.cjs)\<close>


















subsection \<open>Parsing a generated identifier\<close>



























section \<open>Project identification and paths (gk-session-manager.cjs)\<close>












text \<open>
  \<^verbatim>\<open>path.join(dir, name)\<close> for a \<open>name\<close> without separators or dots, as the sanitised
  names and the file names below are: the two joined by one separator, and \<open>dir\<close>
  itself for an empty name.
\<close>

definition path_join :: "string \<Rightarrow> string \<Rightarrow> string" where
  "path_join dir name = (if name = [] then dir else dir @ ''/'' @ name)"

definition getProjectDataDir :: "string \<Rightarrow> string \<Rightarrow> string" where
  "getProjectDataDir PROJECTS_DIR dir = path_join PROJECTS_DIR dir"

definition getSessionPath :: "string \<Rightarrow> string \<Rightarrow> string \<Rightarrow> string" where
  "getSessionPath PROJECTS_DIR dir gkSessionId =
     path_join (getProjectDataDir PROJECTS_DIR dir) (''gk-session-'' @ gkSessionId @ ''.json'')"




subsection \<open>The name of a project's data directory\<close>




















section \<open>The Discord webhook call (gk-discord-notify.cjs, send-discord.cjs)\<close>








subsection \<open>When the promise resolves\<close>







section \<open>The store: project data directories and the env file\<close>

text \<open>
  The session manager keeps its state in files. A project's data directory
  (\<^verbatim>\<open>~/.gemkit/projects/{projectDir}\<close>) is a listing of named files in the order
  \<^verbatim>\<open>readdirSync\<close> gives them; a file holds either a JSON document (\<open>Doc\<close>: the text
  \<^verbatim>\<open>JSON.stringify\<close> writes, which \<^verbatim>\<open>JSON.parse\<close> reads back) or other text
  (\<open>Text\<close>, on which \<^verbatim>\<open>JSON.parse\<close> throws). The directories are found by the
  sanitised project name; a file name carries no separator. \<^verbatim>\<open>.gemini/.env\<close> is one
  text file.

  A call that changes the store can fail: \<open>faults\<close> lists what the next such calls
  will do, one entry per call (none left: the call succeeds). A failing
  \<^verbatim>\<open>writeFileSync\<close> throws and may leave partial text at its destination
  (\<open>Fail (Some partial)\<close>); a failing rename, unlink or mkdir throws and changes
  nothing. Reads do not fail. A thrown exception is a value \<open>Inl e\<close>.
\<close>

datatype fdata = Doc json | Text string

datatype fault = Succeed | Fail "string option"

datatype js_error = TypeError | SyntaxError | IOError

type_synonym listing = "(string \<times> fdata) list"

record fs =
  dirs :: "string \<Rightarrow> listing option"
  env_file :: "string option"
  faults :: "fault list"

fun file_put :: "listing \<Rightarrow> string \<Rightarrow> fdata \<Rightarrow> listing" where
  "file_put [] name d = [(name, d)]"
| "file_put ((n, d') # files) name d =
     (if n = name then (name, d) # files else (n, d') # file_put files name d)"

definition file_del :: "listing \<Rightarrow> string \<Rightarrow> listing" where
  "file_del files name = filter (\<lambda>f. fst f \<noteq> name) files"

definition file_at :: "fs \<Rightarrow> string \<Rightarrow> string \<Rightarrow> fdata option" where
  "file_at s d name = (case dirs s d of None \<Rightarrow> None | Some files \<Rightarrow> map_of files name)"

definition take_fault :: "fs \<Rightarrow> fault \<times> fs" where
  "take_fault s = (case faults s of [] \<Rightarrow> (Succeed, s) | f # rest \<Rightarrow> (f, s\<lparr>faults := rest\<rparr>))"

definition put_file :: "string \<Rightarrow> string \<Rightarrow> fdata \<Rightarrow> fs \<Rightarrow> fs" where
  "put_file d name content s =
     (case dirs s d of
        None \<Rightarrow> s
      | Some files \<Rightarrow> s\<lparr>dirs := (dirs s)(d \<mapsto> file_put files name content)\<rparr>)"

definition writeFileSync :: "string \<Rightarrow> string \<Rightarrow> fdata \<Rightarrow> fs \<Rightarrow> bool \<times> fs" where
  "writeFileSync d name content s =
     (if dirs s d = None then (False, s)
      else (case take_fault s of
              (Succeed, s1) \<Rightarrow> (True, put_file d name content s1)
            | (Fail None, s1) \<Rightarrow> (False, s1)
            | (Fail (Some partial), s1) \<Rightarrow> (False, put_file d name (Text partial) s1)))"

definition renameSync :: "string \<Rightarrow> string \<Rightarrow> string \<Rightarrow> fs \<Rightarrow> bool \<times> fs" where
  "renameSync d from to s =
     (case file_at s d from of
        None \<Rightarrow> (False, s)
      | Some content \<Rightarrow>
          (case take_fault s of
             (Succeed, s1) \<Rightarrow>
               (True, s1\<lparr>dirs := (dirs s1)(d \<mapsto> file_put (file_del (the (dirs s1 d)) from) to content)\<rparr>)
           | (Fail leftover, s1) \<Rightarrow> (False, s1)))"

definition unlinkSync :: "string \<Rightarrow> string \<Rightarrow> fs \<Rightarrow> bool \<times> fs" where
  "unlinkSync d name s =
     (case file_at s d name of
        None \<Rightarrow> (False, s)
      | Some content \<Rightarrow>
          (case take_fault s of
             (Succeed, s1) \<Rightarrow> (True, s1\<lparr>dirs := (dirs s1)(d \<mapsto> file_del (the (dirs s1 d)) name)\<rparr>)
           | (Fail leftover, s1) \<Rightarrow> (False, s1)))"

definition mkdirSync :: "string \<Rightarrow> fs \<Rightarrow> bool \<times> fs" where
  "mkdirSync d s =
     (case take_fault s of
        (Succeed, s1) \<Rightarrow> (True, s1\<lparr>dirs := (dirs s1)(d \<mapsto> [])\<rparr>)
      | (Fail leftover, s1) \<Rightarrow> (False, s1))"

definition ensureDir :: "string \<Rightarrow> fs \<Rightarrow> bool \<times> fs" where
  "ensureDir d s = (if dirs s d \<noteq> None then (True, s) else mkdirSync d s)"

section \<open>Sessions, projects and agents (gk-session-manager.cjs)\<close>

definition session_file :: "string \<Rightarrow> string" where
  "session_file gkSessionId = ''gk-session-'' @ gkSessionId @ ''.json''"

definition project_file :: "string \<Rightarrow> string" where
  "project_file gkProjectHash = ''gk-project-'' @ gkProjectHash @ ''.json''"


text \<open>
  \<^verbatim>\<open>reorderSessionFields\<close> puts \<^verbatim>\<open>agents\<close> last; \<^verbatim>\<open>saveSession\<close> writes the
  document to \<^verbatim>\<open>{sessionPath}.tmp\<close> and renames it over the session file, removing the
  temporary file when either step throws. \<^verbatim>\<open>ensureDir\<close> is called before the
  \<^verbatim>\<open>try\<close>: its exception leaves \<^verbatim>\<open>saveSession\<close>. \<^verbatim>\<open>saveProject\<close> writes the
  project file itself.
\<close>

definition reorderSessionFields :: "json \<Rightarrow> json" where
  "reorderSessionFields session =
     JObj (filter (\<lambda>kv. fst kv \<noteq> ''agents'') (own_entries session)
           @ [(''agents'', or_default (get_prop session ''agents'') (JArr []))])"

definition saveSession :: "string \<Rightarrow> string \<Rightarrow> json \<Rightarrow> fs \<Rightarrow> (js_error + bool) \<times> fs" where
  "saveSession projectDir gkSessionId data s =
     (if projectDir = [] \<or> gkSessionId = [] then (Inr False, s)
      else (case ensureDir projectDir s of
              (False, s1) \<Rightarrow> (Inl IOError, s1)
            | (True, s1) \<Rightarrow>
               (let sessionPath = session_file gkSessionId;
                    tempPath = sessionPath @ ''.tmp''
                in if data = JNull then (Inr False, snd (unlinkSync projectDir tempPath s1))
                   else (case writeFileSync projectDir tempPath (Doc (reorderSessionFields data)) s1 of
                           (False, s2) \<Rightarrow> (Inr False, snd (unlinkSync projectDir tempPath s2))
                         | (True, s2) \<Rightarrow>
                            (case renameSync projectDir tempPath sessionPath s2 of
                               (False, s3) \<Rightarrow> (Inr False, snd (unlinkSync projectDir tempPath s3))
                             | (True, s3) \<Rightarrow> (Inr True, s3))))))"

definition saveProject :: "string \<Rightarrow> string \<Rightarrow> json \<Rightarrow> fs \<Rightarrow> (js_error + bool) \<times> fs" where
  "saveProject projectDir gkProjectHash data s =
     (if projectDir = [] \<or> gkProjectHash = [] then (Inr False, s)
      else (case ensureDir projectDir s of
              (False, s1) \<Rightarrow> (Inl IOError, s1)
            | (True, s1) \<Rightarrow>
               (case writeFileSync projectDir (project_file gkProjectHash) (Doc data) s1 of
                  (ok, s2) \<Rightarrow> (Inr ok, s2))))"

text \<open>
  \<^verbatim>\<open>updateEnv\<close> writes the env file in one \<^verbatim>\<open>writeFileSync\<close>; a value is printed as
  the template literal \<^verbatim>\<open>${v || ''}\<close> prints it. \<^verbatim>\<open>readEnv\<close> finds, for each key,
  the first line that starts with \<^verbatim>\<open>KEY=\<close> and trims the rest of it.
\<close>

fun js_to_string :: "json \<Rightarrow> string" where
  "js_to_string JNull = ''null''"
| "js_to_string (JBool b) = (if b then ''true'' else ''false'')"
| "js_to_string (JNum n) = (if n < 0 then CHR ''-'' # digits10 (nat (- n)) else digits10 (nat n))"
| "js_to_string (JStr s) = s"
| "js_to_string (JArr xs) = join_with '','' (map (\<lambda>x. if x = JNull then [] else js_to_string x) xs)"
| "js_to_string (JObj kvs) = ''[object Object]''"

definition env_value :: "json option \<Rightarrow> string" where
  "env_value v = (case v of None \<Rightarrow> [] | Some x \<Rightarrow> if truthy x then js_to_string x else [])"

definition env_content :: "(string \<times> json) list \<Rightarrow> string \<Rightarrow> string" where
  "env_content envData nowIso = join_with [CHR 0x0A]
     [''# Auto-generated by gk-session-manager'',
      ''# Updated at: '' @ nowIso,
      [],
      ''# GEMKIT IDs'',
      ''ACTIVE_GK_SESSION_ID='' @ env_value (map_of envData ''gkSessionId''),
      ''GK_PROJECT_HASH='' @ env_value (map_of envData ''gkProjectHash''),
      ''PROJECT_DIR='' @ env_value (map_of envData ''projectDir''),
      [],
      ''# GEMINI IDs (mapped)'',
      ''ACTIVE_GEMINI_SESSION_ID='' @ env_value (map_of envData ''geminiSessionId''),
      ''GEMINI_PROJECT_HASH='' @ env_value (map_of envData ''geminiProjectHash''),
      [],
      ''# PLAN INFO'',
      ''ACTIVE_PLAN='' @ env_value (map_of envData ''activePlan''),
      ''SUGGESTED_PLAN='' @ env_value (map_of envData ''suggestedPlan''),
      ''PLAN_DATE_FORMAT='' @ env_value (map_of envData ''planDateFormat''),
      []]"

definition updateEnv :: "(string \<times> json) list \<Rightarrow> string \<Rightarrow> fs \<Rightarrow> bool \<times> fs" where
  "updateEnv envData nowIso s =
     (case take_fault s of
        (Succeed, s1) \<Rightarrow> (True, s1\<lparr>env_file := Some (env_content envData nowIso)\<rparr>)
      | (Fail None, s1) \<Rightarrow> (False, s1)
      | (Fail (Some partial), s1) \<Rightarrow> (False, s1\<lparr>env_file := Some partial\<rparr>))"





record env =
  ACTIVE_GK_SESSION_ID :: string
  GK_PROJECT_HASH :: string
  PROJECT_DIR :: string
  ACTIVE_GEMINI_SESSION_ID :: string
  GEMINI_PROJECT_HASH :: string
  GEMINI_PARENT_ID :: string
  ACTIVE_PLAN :: string
  SUGGESTED_PLAN :: string
  PLAN_DATE_FORMAT :: string




















subsection \<open>What a save leaves in the store\<close>

lemma map_of_file_put:
  "map_of (file_put files name d) n = (if n = name then Some d else map_of files n)"
  by (induction files) auto

lemma map_of_file_del:
  "map_of (file_del files name) n = (if n = name then None else map_of files n)"
  by (induction files) (auto simp: file_del_def)

lemma dirs_take_fault: "take_fault s = (f, s1) \<Longrightarrow> dirs s1 = dirs s \<and> env_file s1 = env_file s"
  by (auto simp: take_fault_def split: list.splits)

lemma file_at_take_fault: "take_fault s = (f, s1) \<Longrightarrow> file_at s1 d n = file_at s d n"
  by (simp add: file_at_def dirs_take_fault)

lemma file_at_put_file:
  "file_at (put_file d name c s) d' n =
     (if d' = d \<and> n = name \<and> dirs s d \<noteq> None then Some c else file_at s d' n)"
  by (auto simp: put_file_def file_at_def map_of_file_put split: option.splits)

lemma writeFileSync_other:
  "writeFileSync d name c s = (ok, s') \<Longrightarrow> n \<noteq> name \<Longrightarrow> file_at s' d' n = file_at s d' n"
  by (auto simp: writeFileSync_def file_at_put_file file_at_take_fault
        split: if_splits prod.splits fault.splits option.splits)

lemma writeFileSync_ok:
  "writeFileSync d name c s = (True, s') \<Longrightarrow> file_at s' d name = Some c"
  by (auto simp: writeFileSync_def file_at_put_file dirs_take_fault
        split: if_splits prod.splits fault.splits option.splits)

lemma unlinkSync_other:
  "unlinkSync d name s = (ok, s') \<Longrightarrow> n \<noteq> name \<Longrightarrow> file_at s' d' n = file_at s d' n"
  by (auto simp: unlinkSync_def file_at_def map_of_file_del dirs_take_fault
        split: option.splits prod.splits fault.splits if_splits)

lemma renameSync_failed:
  "renameSync d from to s = (False, s') \<Longrightarrow> file_at s' d' n = file_at s d' n"
  by (auto simp: renameSync_def file_at_take_fault split: option.splits prod.splits fault.splits)

lemma renameSync_ok:
  "renameSync d from to s = (True, s') \<Longrightarrow> file_at s' d to = file_at s d from"
  by (auto simp: renameSync_def file_at_def map_of_file_put dirs_take_fault
        split: option.splits prod.splits fault.splits)

lemma ensureDir_files:
  "ensureDir d s = (ok, s') \<Longrightarrow> file_at s' d' n = file_at s d' n"
  by (auto simp: ensureDir_def mkdirSync_def file_at_def dirs_take_fault
        split: if_splits option.splits prod.splits fault.splits)

lemma temp_not_session: "session_file gkSessionId @ ''.tmp'' \<noteq> session_file gkSessionId"
  by simp

lemma saveSession_effect:
  assumes "saveSession projectDir gkSessionId data s = (r, s')"
  shows "(r \<noteq> Inr True \<longrightarrow>
            file_at s' projectDir (session_file gkSessionId) = file_at s projectDir (session_file gkSessionId))
       \<and> (r = Inr True \<longrightarrow>
            file_at s' projectDir (session_file gkSessionId) = Some (Doc (reorderSessionFields data)))"
proof (cases "projectDir = [] \<or> gkSessionId = []")
  case True
  with assms show ?thesis
    by (auto simp: saveSession_def)
next
  case False
  let ?sp = "session_file gkSessionId"
  let ?tp = "?sp @ ''.tmp''"
  obtain ok1 s1 where e: "ensureDir projectDir s = (ok1, s1)"
    by (cases "ensureDir projectDir s")
  have f1: "file_at s1 projectDir ?sp = file_at s projectDir ?sp"
    using e by (rule ensureDir_files)
  have u: "file_at (snd (unlinkSync projectDir ?tp t)) projectDir ?sp = file_at t projectDir ?sp" for t
    using unlinkSync_other [of projectDir ?tp t "fst (unlinkSync projectDir ?tp t)"
        "snd (unlinkSync projectDir ?tp t)" ?sp projectDir]
    by simp
  show ?thesis
  proof (cases ok1)
    case False
    with assms e \<open>\<not> (projectDir = [] \<or> gkSessionId = [])\<close> f1 show ?thesis
      by (auto simp: saveSession_def)
  next
    case True
    note ok1 = True
    show ?thesis
    proof (cases "data = JNull")
      case True
      with assms e ok1 \<open>\<not> (projectDir = [] \<or> gkSessionId = [])\<close> f1 u show ?thesis
        by (auto simp: saveSession_def Let_def)
    next
      case False
      note data = False
      obtain ok2 s2 where w: "writeFileSync projectDir ?tp (Doc (reorderSessionFields data)) s1 = (ok2, s2)"
        by (cases "writeFileSync projectDir ?tp (Doc (reorderSessionFields data)) s1")
      have f2: "file_at s2 projectDir ?sp = file_at s1 projectDir ?sp"
        using w by (rule writeFileSync_other) simp
      show ?thesis
      proof (cases ok2)
        case False
        with assms e ok1 data w \<open>\<not> (projectDir = [] \<or> gkSessionId = [])\<close> f1 f2 u show ?thesis
          by (auto simp: saveSession_def Let_def)
      next
        case True
        note ok2 = True
        obtain ok3 s3 where rn: "renameSync projectDir ?tp ?sp s2 = (ok3, s3)"
          by (cases "renameSync projectDir ?tp ?sp s2")
        show ?thesis
        proof (cases ok3)
          case False
          with rn have "renameSync projectDir ?tp ?sp s2 = (False, s3)"
            by simp
          then have "file_at s3 projectDir ?sp = file_at s2 projectDir ?sp"
            by (rule renameSync_failed)
          with False assms e ok1 ok2 data w rn \<open>\<not> (projectDir = [] \<or> gkSessionId = [])\<close> f1 f2 u
          show ?thesis
            by (auto simp: saveSession_def Let_def)
        next
          case True
          with rn have "renameSync projectDir ?tp ?sp s2 = (True, s3)"
            by simp
          then have "file_at s3 projectDir ?sp = file_at s2 projectDir ?tp"
            by (rule renameSync_ok)
          moreover from w ok2 have "writeFileSync projectDir ?tp (Doc (reorderSessionFields data)) s1 = (True, s2)"
            by simp
          then have "file_at s2 projectDir ?tp = Some (Doc (reorderSessionFields data))"
            by (rule writeFileSync_ok)
          ultimately show ?thesis
            using True assms e ok1 ok2 data w rn \<open>\<not> (projectDir = [] \<or> gkSessionId = [])\<close>
            by (auto simp: saveSession_def Let_def)
        qed
      qed
    qed
  qed
qed

text \<open>
  Claim C3, as amended. A session file is replaced atomically: whenever
  \<^verbatim>\<open>saveSession\<close> does not return true (it returns false or throws, whichever call
  failed and whatever a failed write left behind), the session file holds what it held
  before; when it returns true, the file holds the new document.
\<close>

theorem saveSession_atomic:
  assumes "saveSession projectDir gkSessionId data s = (r, s')"
  shows "(r \<noteq> Inr True \<longrightarrow>
            file_at s' projectDir (session_file gkSessionId) = file_at s projectDir (session_file gkSessionId))
       \<and> (r = Inr True \<longrightarrow>
            file_at s' projectDir (session_file gkSessionId) = Some (Doc (reorderSessionFields data)))"
  using assms by (rule saveSession_effect)

subsection \<open>Agent operations change the agents only\<close>









text \<open>A store with one project directory, to run the operations on.\<close>

definition example_store :: "fault list \<Rightarrow> fs" where
  "example_store fl =
     \<lparr> dirs = [''p'' \<mapsto> [(session_file ''a'', Doc (JObj [(''v'', JNum 1)])),
                         (project_file ''h'', Doc (JObj [(''v'', JNum 1)]))]],
       env_file = Some ''ACTIVE_PLAN=x'',
       faults = fl \<rparr>"

lemmas fs_eval =
  example_store_def saveSession_def saveProject_def updateEnv_def ensureDir_def writeFileSync_def
  renameSync_def unlinkSync_def mkdirSync_def take_fault_def put_file_def file_at_def file_del_def
  session_file_def project_file_def reorderSessionFields_def get_prop_def Let_def

theorem saveSession_atomic_witness:
  "fst (saveSession ''p'' ''a'' (JObj [(''v'', JNum 2)]) (example_store [Fail (Some ''{'')])) = Inr False
   \<and> file_at (snd (saveSession ''p'' ''a'' (JObj [(''v'', JNum 2)]) (example_store [Fail (Some ''{'')])))
        ''p'' (session_file ''a'') = Some (Doc (JObj [(''v'', JNum 1)]))
   \<and> fst (saveSession ''p'' ''a'' (JObj [(''v'', JNum 2)]) (example_store [])) = Inr True
   \<and> file_at (snd (saveSession ''p'' ''a'' (JObj [(''v'', JNum 2)]) (example_store [])))
        ''p'' (session_file ''a'') = Some (Doc (JObj [(''v'', JNum 2), (''agents'', JArr [])]))"
proof -
  have a: "fst (saveSession ''p'' ''a'' (JObj [(''v'', JNum 2)]) (example_store [Fail (Some ''{'')])) = Inr False"
    by (simp add: fs_eval)
  have b: "fst (saveSession ''p'' ''a'' (JObj [(''v'', JNum 2)]) (example_store [])) = Inr True"
    by (simp add: fs_eval)
  have c: "file_at (example_store [Fail (Some ''{'')]) ''p'' (session_file ''a'') = Some (Doc (JObj [(''v'', JNum 1)]))"
    by (simp add: fs_eval)
  have d: "reorderSessionFields (JObj [(''v'', JNum 2)]) = JObj [(''v'', JNum 2), (''agents'', JArr [])]"
    by (simp add: fs_eval)
  show ?thesis
    using saveSession_atomic [OF prod.collapse [symmetric],
            of "''p''" "''a''" "JObj [(''v'', JNum 2)]" "example_store [Fail (Some ''{'')]"]
          saveSession_atomic [OF prod.collapse [symmetric],
            of "''p''" "''a''" "JObj [(''v'', JNum 2)]" "example_store []"]
    by (simp add: a b c d)
qed

text \<open>
  The claim as stated fails for the project file and the env file: \<^verbatim>\<open>saveProject\<close>
  and \<^verbatim>\<open>updateEnv\<close> write their destination directly, and a write that fails partway
  leaves the partial text there.
\<close>

theorem in_place_write_counterexample:
  "file_at (example_store [Fail (Some ''{'')]) ''p'' (project_file ''h'') = Some (Doc (JObj [(''v'', JNum 1)]))
   \<and> fst (saveProject ''p'' ''h'' (JObj [(''v'', JNum 2)]) (example_store [Fail (Some ''{'')])) = Inr False
   \<and> file_at (snd (saveProject ''p'' ''h'' (JObj [(''v'', JNum 2)]) (example_store [Fail (Some ''{'')])))
        ''p'' (project_file ''h'') = Some (Text ''{'')
   \<and> env_file (example_store [Fail (Some ''#'')]) = Some ''ACTIVE_PLAN=x''
   \<and> fst (updateEnv [] ''t'' (example_store [Fail (Some ''#'')])) = False
   \<and> env_file (snd (updateEnv [] ''t'' (example_store [Fail (Some ''#'')]))) = Some ''#''"
  by (simp add: fs_eval)






section \<open>Programs over the store\<close>

text \<open>
  A function of the session manager or a hook runs over the store and ends in one of
  three ways: it returns a value, it throws, or it calls \<^verbatim>\<open>process.exit\<close>. An
  exception is passed on until a \<^verbatim>\<open>catch\<close> takes it; an exit passes every
  \<^verbatim>\<open>catch\<close> and ends the script with its code.
\<close>

datatype 'a res = Ret 'a | Thrown js_error | Exited nat

type_synonym 'a prog = "fs \<Rightarrow> 'a res \<times> fs"










text \<open>
  \<^verbatim>\<open>findSessionByGeminiId\<close> reads the files of the project's data directory whose names
  start with \<^verbatim>\<open>gk-session-\<close> and end with \<^verbatim>\<open>.json\<close>, in directory order, and
  returns the first whose document has the given \<^verbatim>\<open>geminiSessionId\<close>. The loop stands
  in one \<^verbatim>\<open>try\<close> whose \<^verbatim>\<open>catch\<close> is empty: a file that does not parse, or
  holds \<^verbatim>\<open>null\<close>, ends the search, and the function returns \<^verbatim>\<open>null\<close>.
\<close>

definition ends_with :: "string \<Rightarrow> string \<Rightarrow> bool" where
  "ends_with s suffix = (length suffix \<le> length s \<and> drop (length s - length suffix) s = suffix)"

definition is_session_name :: "string \<Rightarrow> bool" where
  "is_session_name file = (starts_with file ''gk-session-'' \<and> ends_with file ''.json'')"























subsection \<open>initializeGeminiSession\<close>












subsection \<open>Resuming a session\<close>















section \<open>The session hooks (gk-session-init.cjs, gk-session-end.cjs)\<close>



































subsection \<open>gk-session-end.cjs\<close>














subsection \<open>Exit codes\<close>


definition tame :: "'a prog \<Rightarrow> bool" where
  "tame m = (\<forall>s c. fst (m s) = Exited c \<longrightarrow> c = 0)"

definition ends :: "'a prog \<Rightarrow> bool" where
  "ends m = (\<forall>s. (\<exists>e. fst (m s) = Thrown e) \<or> fst (m s) = Exited 0)"































lemma ends_tame: "ends m \<Longrightarrow> tame m"
  by (auto simp: ends_def tame_def) (metis res.distinct(5) res.inject(3))

























subsection \<open>send-discord.cjs\<close>











section \<open>Sub-agents are entries of their parent's session\<close>










lemma session_file_is_session_name: "is_session_name (session_file x)"
  by (simp add: is_session_name_def session_file_def starts_with_def ends_with_def)

















subsection \<open>Agents after an operation\<close>



















subsection \<open>Programs that only update session files\<close>








































subsection \<open>The hooks\<close>





























subsection \<open>Every run keeps sub-agents with their parent\<close>


























end
